theory Spec2Isabelle
  imports Complex_Main
begin

section \<open>JavaScript numbers\<close>

text \<open>
  The ride engine computes with JavaScript numbers. A number is modelled as an exact real,
  or one of the three special values. Rounding and overflow of the 64-bit format are not
  modelled; \<open>NaN\<close> and the infinities are, because the program meets them without any
  rounding: \<open>parseFloat\<close> of an empty text field is \<open>NaN\<close>, \<open>x % 0\<close> is \<open>NaN\<close>, and
  \<open>isFinite\<close> tests for all three. Zero is unsigned.
\<close>

datatype jsnum = NaN | NInf | Fin real | PInf

fun isFinite :: "jsnum \<Rightarrow> bool" where
  "isFinite (Fin x) = True"
| "isFinite NaN = False"
| "isFinite NInf = False"
| "isFinite PInf = False"

text \<open>The relational operators: every comparison with \<open>NaN\<close> is false.\<close>

fun jlt :: "jsnum \<Rightarrow> jsnum \<Rightarrow> bool" where
  "jlt (Fin a) (Fin b) = (a < b)"
| "jlt (Fin a) PInf = True"
| "jlt NInf (Fin b) = True"
| "jlt NInf PInf = True"
| "jlt NaN y = False"
| "jlt (Fin a) NaN = False"
| "jlt (Fin a) NInf = False"
| "jlt NInf NaN = False"
| "jlt NInf NInf = False"
| "jlt PInf y = False"

fun jle :: "jsnum \<Rightarrow> jsnum \<Rightarrow> bool" where
  "jle (Fin a) (Fin b) = (a \<le> b)"
| "jle (Fin a) PInf = True"
| "jle NInf (Fin b) = True"
| "jle NInf PInf = True"
| "jle NInf NInf = True"
| "jle PInf PInf = True"
| "jle NaN y = False"
| "jle (Fin a) NaN = False"
| "jle (Fin a) NInf = False"
| "jle NInf NaN = False"
| "jle PInf NaN = False"
| "jle PInf NInf = False"
| "jle PInf (Fin b) = False"

definition jgt :: "jsnum \<Rightarrow> jsnum \<Rightarrow> bool" where
  "jgt x y = jlt y x"

definition jge :: "jsnum \<Rightarrow> jsnum \<Rightarrow> bool" where
  "jge x y = jle y x"

text \<open>\<open>Math.max\<close> and \<open>Math.min\<close> return \<open>NaN\<close> as soon as one argument is \<open>NaN\<close>.\<close>

fun jmax :: "jsnum \<Rightarrow> jsnum \<Rightarrow> jsnum" where
  "jmax NaN y = NaN"
| "jmax x NaN = NaN"
| "jmax x y = (if jlt x y then y else x)"

fun jmin :: "jsnum \<Rightarrow> jsnum \<Rightarrow> jsnum" where
  "jmin NaN y = NaN"
| "jmin x NaN = NaN"
| "jmin x y = (if jlt y x then y else x)"

fun jneg :: "jsnum \<Rightarrow> jsnum" where
  "jneg NaN = NaN"
| "jneg NInf = PInf"
| "jneg PInf = NInf"
| "jneg (Fin a) = Fin (- a)"

fun jadd :: "jsnum \<Rightarrow> jsnum \<Rightarrow> jsnum" where
  "jadd (Fin a) (Fin b) = Fin (a + b)"
| "jadd NaN y = NaN"
| "jadd x NaN = NaN"
| "jadd PInf NInf = NaN"
| "jadd NInf PInf = NaN"
| "jadd PInf y = PInf"
| "jadd NInf y = NInf"
| "jadd (Fin a) PInf = PInf"
| "jadd (Fin a) NInf = NInf"

definition jsub :: "jsnum \<Rightarrow> jsnum \<Rightarrow> jsnum" where
  "jsub x y = jadd x (jneg y)"

text \<open>The sign of a number that is not \<open>NaN\<close>: \<open>-1\<close>, \<open>0\<close> or \<open>1\<close>.\<close>

fun jsgn :: "jsnum \<Rightarrow> real" where
  "jsgn (Fin a) = sgn a"
| "jsgn PInf = 1"
| "jsgn NInf = - 1"
| "jsgn NaN = 0"

definition infOfSign :: "real \<Rightarrow> jsnum" where
  "infOfSign r = (if r = 0 then NaN else if 0 < r then PInf else NInf)"

fun jmul :: "jsnum \<Rightarrow> jsnum \<Rightarrow> jsnum" where
  "jmul (Fin a) (Fin b) = Fin (a * b)"
| "jmul NaN y = NaN"
| "jmul x NaN = NaN"
| "jmul x y = infOfSign (jsgn x * jsgn y)"

text \<open>
  Division. A finite number over an infinity is zero, an infinity over an infinity is
  \<open>NaN\<close>, and a division by zero gives an infinity of the dividend's sign (\<open>NaN\<close> for
  \<open>0 / 0\<close>). The divisors of the program are floored to \<open>1e-6\<close>, tested against zero
  first, the literal \<open>100\<close>, or a count of sample intervals.
\<close>

fun jdiv :: "jsnum \<Rightarrow> jsnum \<Rightarrow> jsnum" where
  "jdiv (Fin a) (Fin b) = (if b = 0 then infOfSign (sgn a) else Fin (a / b))"
| "jdiv NaN y = NaN"
| "jdiv x NaN = NaN"
| "jdiv (Fin a) PInf = Fin 0"
| "jdiv (Fin a) NInf = Fin 0"
| "jdiv PInf (Fin b) = (if b < 0 then NInf else PInf)"
| "jdiv NInf (Fin b) = (if b < 0 then PInf else NInf)"
| "jdiv PInf PInf = NaN"
| "jdiv PInf NInf = NaN"
| "jdiv NInf PInf = NaN"
| "jdiv NInf NInf = NaN"

text \<open>
  The remainder operator \<open>%\<close>: the result has the sign of the dividend; it is \<open>NaN\<close> when
  the dividend is infinite or the divisor is zero, and the dividend itself when the divisor
  is infinite.
\<close>

definition jtrunc :: "real \<Rightarrow> real" where
  "jtrunc x = (if 0 \<le> x then of_int \<lfloor>x\<rfloor> else of_int \<lceil>x\<rceil>)"

fun jmod :: "jsnum \<Rightarrow> jsnum \<Rightarrow> jsnum" where
  "jmod (Fin a) (Fin b) = (if b = 0 then NaN else Fin (a - b * jtrunc (a / b)))"
| "jmod (Fin a) PInf = Fin a"
| "jmod (Fin a) NInf = Fin a"
| "jmod NaN y = NaN"
| "jmod PInf y = NaN"
| "jmod NInf y = NaN"
| "jmod (Fin a) NaN = NaN"

text \<open>\<open>THREE.MathUtils.clamp(value, min, max)\<close> is \<open>Math.max(min, Math.min(max, value))\<close>.\<close>

definition clamp :: "jsnum \<Rightarrow> jsnum \<Rightarrow> jsnum \<Rightarrow> jsnum" where
  "clamp v lo hi = jmax lo (jmin hi v)"

text \<open>\<open>THREE.MathUtils.lerp(x, y, t)\<close> is \<open>(1 - t) * x + t * y\<close>.\<close>

definition lerp :: "jsnum \<Rightarrow> jsnum \<Rightarrow> jsnum \<Rightarrow> jsnum" where
  "lerp x y t = jadd (jmul (jsub (Fin 1) t) x) (jmul t y)"

text \<open>
  Reading an array past its end gives \<open>undefined\<close>, which arithmetic and comparisons
  turn into \<open>NaN\<close>.
\<close>

definition nthNum :: "real list \<Rightarrow> nat \<Rightarrow> jsnum" where
  "nthNum xs i = (if i < length xs then Fin (xs ! i) else NaN)"

section \<open>The state of the program\<close>

text \<open>
  The module-level variables of the path: the control points, the per-segment speeds, the
  arc-length table (\<open>sampledPts\<close>, \<open>cumLen\<close>, \<open>totalLen\<close>), the arc length at each control
  point and the turn angles. Coordinates, lengths and angles are reals. A segment speed is
  a number: loading can store \<open>Infinity\<close>.
\<close>

type_synonym vec = "real \<times> real \<times> real"

record path_state =
  sCurveControlPoints :: "vec list"
  segSpeeds :: "jsnum list"
  sampledPts :: "vec list"
  cumLen :: "real list"
  totalLen :: real
  sAtPoint :: "real list"
  turnAngle :: "real list"

text \<open>The ride and game variables the frame loop updates.\<close>

record ride_state =
  rideProgressS :: jsnum
  rideProgressT :: jsnum
  isRideActive :: bool
  isRideLooping :: bool
  currentSpeedForHud :: jsnum
  playerScore :: int
  playerHearts :: int
  wasInsideTargetPrevFrame :: bool
  scoreAccumulatorSeconds :: real
  noDamageMode :: bool

text \<open>
  The numeric fields of the page that the engine reads on every call. Each field stands
  for \<open>parseFloat(element.value)\<close>: it is \<open>NaN\<close> when the text is empty or is not a number.
\<close>

record dom_inputs =
  wPrevStartInput :: jsnum
  wPrevEndInput :: jsnum
  wNextHoldInput :: jsnum
  wNextAccelInput :: jsnum
  p0_20_Input :: jsnum
  p20_45_Input :: jsnum
  p45_90_Input :: jsnum
  p90_120_Input :: jsnum
  p120_150_Input :: jsnum
  p150_165_Input :: jsnum
  p165_180_Input :: jsnum
  leadDistanceInput :: jsnum

datatype error = TypeError

section \<open>Distance to index\<close>

text \<open>
  The binary search of \<open>distanceToIndex\<close>. \<open>(lo + hi) >> 1\<close> is the integer half of the
  sum; the indices stay far below \<open>2^31\<close>, where the shift would wrap. For an empty table
  \<open>hi\<close> is \<open>-1\<close> in the source and \<open>0\<close> here, and in both the loop is not entered.
\<close>

function d2iLoop :: "real list \<Rightarrow> jsnum \<Rightarrow> nat \<Rightarrow> nat \<Rightarrow> nat" where
  "d2iLoop cl d lo hi =
     (if lo < hi then
        (let mid = (lo + hi) div 2 in
         if jlt (nthNum cl mid) d then d2iLoop cl d (mid + 1) hi
         else d2iLoop cl d lo mid)
      else lo)"
  by pat_completeness auto
termination
  by (relation "measure (\<lambda>(cl, d, lo, hi). hi - lo)") auto

definition distanceToIndex :: "path_state \<Rightarrow> jsnum \<Rightarrow> nat" where
  "distanceToIndex st distance =
     d2iLoop (cumLen st) (jmax (Fin 0) (jmin distance (Fin (totalLen st))))
       0 (length (cumLen st) - 1)"

section \<open>Arc length to curve parameter\<close>

definition sToT :: "path_state \<Rightarrow> jsnum \<Rightarrow> jsnum" where
  "sToT st s =
     (if totalLen st = 0 \<or> \<not> isFinite s then Fin 0
      else
        let targetS = clamp s (Fin 0) (Fin (totalLen st));
            index = distanceToIndex st targetS
        in if index = 0 then Fin 0
           else if int (length (cumLen st)) - 1 \<le> int index then Fin 1
           else
             let s0 = nthNum (cumLen st) (index - 1);
                 s1 = nthNum (cumLen st) index;
                 t1 = jdiv (Fin (real index)) (Fin (real (length (sampledPts st)) - 1));
                 t0 = jdiv (Fin (real index - 1)) (Fin (real (length (sampledPts st)) - 1));
                 segmentLength = jsub s1 s0;
                 segmentProgress =
                   (if segmentLength = Fin 0 then Fin 0
                    else jdiv (jsub targetS s0) segmentLength)
             in jadd t0 (jmul (jsub t1 t0) segmentProgress))"

section \<open>Building the arc-length table\<close>

text \<open>
  The vector operations are those of the rendering library: \<open>distanceTo\<close> is the
  Euclidean distance and \<open>lerpVectors(a, b, alpha)\<close> is \<open>a + (b - a) * alpha\<close> in each
  coordinate.
\<close>

definition distanceTo :: "vec \<Rightarrow> vec \<Rightarrow> real" where
  "distanceTo a b =
     (case a of (ax, ay, az) \<Rightarrow> case b of (bx, by, bz) \<Rightarrow>
        sqrt ((ax - bx) * (ax - bx) + (ay - by) * (ay - by) + (az - bz) * (az - bz)))"

definition lerpVectors :: "vec \<Rightarrow> vec \<Rightarrow> real \<Rightarrow> vec" where
  "lerpVectors a b alpha =
     (case a of (ax, ay, az) \<Rightarrow> case b of (bx, by, bz) \<Rightarrow>
        (ax + (bx - ax) * alpha, ay + (by - ay) * alpha, az + (bz - az) * alpha))"

text \<open>The three variables the sampling loops update: \<open>sampledPts\<close>, \<open>cumLen\<close> and \<open>acc\<close>.\<close>

type_synonym table = "vec list \<times> real list \<times> real"

definition pushSample :: "vec \<Rightarrow> table \<Rightarrow> table" where
  "pushSample p tb =
     (case tb of (sp, cl, acc) \<Rightarrow>
        let acc' = acc + distanceTo p (last sp) in (sp @ [p], cl @ [acc'], acc'))"

definition targetStep :: real where
  "targetStep = 2 / 100"

definition stepsBetween :: "vec \<Rightarrow> vec \<Rightarrow> nat" where
  "stepsBetween a b = nat (max 1 \<lceil>distanceTo a b / targetStep\<rceil>)"

text \<open>The inner loop, \<open>k = 1 .. steps\<close>.\<close>

definition subdivide :: "vec \<Rightarrow> vec \<Rightarrow> table \<Rightarrow> table" where
  "subdivide a b tb =
     (let steps = stepsBetween a b in
      foldl (\<lambda>t k. pushSample (lerpVectors a b (real k / real steps)) t) tb [1..<steps + 1])"

text \<open>The outer loop over the consecutive pairs \<open>points[i - 1]\<close>, \<open>points[i]\<close>.\<close>

fun buildTable :: "vec list \<Rightarrow> table \<Rightarrow> table" where
  "buildTable (a # b # rest) tb = buildTable (b # rest) (subdivide a b tb)"
| "buildTable [a] tb = tb"
| "buildTable [] tb = tb"

text \<open>
  The nearest-sample search behind \<open>sAtPoint\<close>: \<open>bestD\<close> starts at \<open>Infinity\<close> and only
  a strictly smaller distance replaces the best index, so the first nearest sample wins.
\<close>

definition nearestStep :: "vec list \<Rightarrow> vec \<Rightarrow> nat \<times> jsnum \<Rightarrow> nat \<Rightarrow> nat \<times> jsnum" where
  "nearestStep sp p best i =
     (case best of (bestI, bestD) \<Rightarrow>
        let d = Fin (distanceTo (sp ! i) p) in if jlt d bestD then (i, d) else (bestI, bestD))"

definition nearestIndex :: "vec list \<Rightarrow> vec \<Rightarrow> nat" where
  "nearestIndex sp p = fst (foldl (nearestStep sp p) (0, PInf) [0..<length sp])"

text \<open>
  \<open>initializePathData\<close>. The spline and its sampling, \<open>rideCurve.getPoints(divisions)\<close>,
  belong to the rendering library: \<open>getPoints\<close> stands for the list of points it returns
  for the current control points (tension and resolution included). Reading \<open>points[0]\<close>
  of an empty list throws.
\<close>

definition initializePathData :: "(vec list \<Rightarrow> vec list) \<Rightarrow> path_state \<Rightarrow> error + path_state" where
  "initializePathData getPoints st =
     (case getPoints (sCurveControlPoints st) of
        [] \<Rightarrow> Inl TypeError
      | p0 # ps \<Rightarrow>
          (case buildTable (p0 # ps) ([p0], [0], 0) of (sp, cl, acc) \<Rightarrow>
             Inr (st\<lparr>sampledPts := sp, cumLen := cl, totalLen := acc,
                      sAtPoint := map (\<lambda>p. cl ! nearestIndex sp p) (sCurveControlPoints st)\<rparr>)))"

text \<open>The invariant of the sampling loops.\<close>

definition tableInv :: "table \<Rightarrow> bool" where
  "tableInv tb = (case tb of (sp, cl, acc) \<Rightarrow>
     length cl = length sp \<and> cl \<noteq> [] \<and> cl ! 0 = 0 \<and> sorted cl \<and> last cl = acc)"

section \<open>Turn angles\<close>

text \<open>
  More of the library's vector operations. \<open>normalize\<close> divides by \<open>length() || 1\<close>, so
  the zero vector stays the zero vector; \<open>radToDeg\<close> multiplies by \<open>180 / Math.PI\<close>.
\<close>

definition subVectors :: "vec \<Rightarrow> vec \<Rightarrow> vec" where
  "subVectors a b =
     (case a of (ax, ay, az) \<Rightarrow> case b of (bx, by, bz) \<Rightarrow> (ax - bx, ay - by, az - bz))"

definition setY :: "vec \<Rightarrow> real \<Rightarrow> vec" where
  "setY a y = (case a of (ax, ay, az) \<Rightarrow> (ax, y, az))"

definition vlength :: "vec \<Rightarrow> real" where
  "vlength a = (case a of (ax, ay, az) \<Rightarrow> sqrt (ax * ax + ay * ay + az * az))"

definition normalize :: "vec \<Rightarrow> vec" where
  "normalize a =
     (let l = vlength a; d = (if l = 0 then 1 else l) in
      case a of (ax, ay, az) \<Rightarrow> (ax * (1 / d), ay * (1 / d), az * (1 / d)))"

definition dot :: "vec \<Rightarrow> vec \<Rightarrow> real" where
  "dot a b = (case a of (ax, ay, az) \<Rightarrow> case b of (bx, by, bz) \<Rightarrow> ax * bx + ay * by + az * bz)"

definition radToDeg :: "real \<Rightarrow> real" where
  "radToDeg r = r * (180 / pi)"

text \<open>The body of the loop of \<open>computeTurnAngles\<close>, for the interior control point \<open>i\<close>.\<close>

definition turnAngleAt :: "vec list \<Rightarrow> nat \<Rightarrow> real" where
  "turnAngleAt cps i =
     (let a = normalize (setY (subVectors (cps ! i) (cps ! (i - 1))) 0);
          b = normalize (setY (subVectors (cps ! (i + 1)) (cps ! i)) 0);
          d = max (- 1) (min 1 (dot a b))
      in radToDeg (arccos d))"

text \<open>
  \<open>computeTurnAngles\<close> fills the array with zeros and overwrites the entries
  \<open>1 .. length - 2\<close>.
\<close>

definition computeTurnAngles :: "path_state \<Rightarrow> path_state" where
  "computeTurnAngles st =
     (let cps = sCurveControlPoints st in
      st\<lparr>turnAngle :=
           map (\<lambda>i. if 1 \<le> i \<and> i + 1 < length cps then turnAngleAt cps i else 0)
             [0..<length cps]\<rparr>)"

section \<open>The speed profile\<close>

text \<open>
  \<open>anglePercent\<close> reads the field of the angle's band. Its argument is \<open>turnAngle[i]\<close>,
  which is \<open>undefined\<close> past the end of the array: then every comparison fails and the
  last band is used.
\<close>

definition anglePercent :: "dom_inputs \<Rightarrow> jsnum \<Rightarrow> jsnum" where
  "anglePercent ui d =
     (if jle d (Fin 20) then jdiv (p0_20_Input ui) (Fin 100)
      else if jle d (Fin 45) then jdiv (p20_45_Input ui) (Fin 100)
      else if jle d (Fin 90) then jdiv (p45_90_Input ui) (Fin 100)
      else if jle d (Fin 120) then jdiv (p90_120_Input ui) (Fin 100)
      else if jle d (Fin 150) then jdiv (p120_150_Input ui) (Fin 100)
      else if jle d (Fin 165) then jdiv (p150_165_Input ui) (Fin 100)
      else jdiv (p165_180_Input ui) (Fin 100))"

text \<open>\<open>xs[i] ?? d\<close>: the entry, or \<open>d\<close> when the index is past the end.\<close>

definition nthOr :: "jsnum list \<Rightarrow> nat \<Rightarrow> jsnum \<Rightarrow> jsnum" where
  "nthOr xs i d = (if i < length xs then xs ! i else d)"

text \<open>
  The loop of \<open>baseSegmentSpeedAtS\<close> over \<open>i = 1 .. length - 1\<close>: the first segment whose
  end anchor is at or after \<open>s\<close> gives the speed; past the last anchor the last segment's
  speed is used.
\<close>

fun baseLoop :: "path_state \<Rightarrow> jsnum \<Rightarrow> nat list \<Rightarrow> jsnum" where
  "baseLoop st s [] = nthOr (segSpeeds st) (length (segSpeeds st) - 1) (Fin 10)"
| "baseLoop st s (i # is) =
     (if jle s (nthNum (sAtPoint st) i) then nthOr (segSpeeds st) (i - 1) (Fin 10)
      else baseLoop st s is)"

definition baseSegmentSpeedAtS :: "path_state \<Rightarrow> jsnum \<Rightarrow> jsnum" where
  "baseSegmentSpeedAtS st s =
     (if length (sCurveControlPoints st) < 2 then Fin 10
      else baseLoop st s [1..<length (sCurveControlPoints st)])"

definition eps :: real where
  "eps = 1 / 1000000"

text \<open>The approach window of a turn, inside the segment before it.\<close>

definition prevWindow :: "dom_inputs \<Rightarrow> jsnum \<Rightarrow> jsnum \<Rightarrow> jsnum \<Rightarrow> jsnum \<Rightarrow> jsnum" where
  "prevWindow ui v prevV minV tPrev =
     (let prevStart = wPrevStartInput ui; prevEnd = wPrevEndInput ui in
      if jge tPrev prevStart \<and> jle tPrev prevEnd then
        (let t = jdiv (jsub tPrev prevStart) (jmax (Fin eps) (jsub prevEnd prevStart))
         in lerp prevV minV (clamp t (Fin 0) (Fin 1)))
      else if jgt tPrev prevEnd \<and> jle tPrev (Fin 1) then minV
      else v)"

text \<open>The exit window of a turn, inside the segment after it.\<close>

definition nextWindow :: "dom_inputs \<Rightarrow> jsnum \<Rightarrow> jsnum \<Rightarrow> jsnum \<Rightarrow> jsnum \<Rightarrow> jsnum" where
  "nextWindow ui v nextV minV tNext =
     (let nextHold = wNextHoldInput ui; nextAccel = wNextAccelInput ui in
      if jle tNext nextHold then minV
      else if jgt tNext nextHold \<and> jle tNext nextAccel then
        (let t = jdiv (jsub tNext nextHold) (jmax (Fin eps) (jsub nextAccel nextHold))
         in lerp minV nextV (clamp t (Fin 0) (Fin 1)))
      else v)"

text \<open>
  One pass of the loop of \<open>speedAtS\<close>, for the interior control point \<open>i\<close> and the speed
  \<open>v\<close> computed so far.
\<close>

definition turnWindows :: "dom_inputs \<Rightarrow> path_state \<Rightarrow> jsnum \<Rightarrow> jsnum \<Rightarrow> nat \<Rightarrow> jsnum" where
  "turnWindows ui st s v i =
     (let sPrevA = nthNum (sAtPoint st) (i - 1);
          sPrevB = nthNum (sAtPoint st) i;
          sNextA = nthNum (sAtPoint st) i;
          sNextB = nthNum (sAtPoint st) (i + 1);
          prevLen = jmax (Fin eps) (jsub sPrevB sPrevA);
          nextLen = jmax (Fin eps) (jsub sNextB sNextA);
          tPrev = clamp (jdiv (jsub s sPrevA) prevLen) (Fin 0) (Fin 1);
          tNext = clamp (jdiv (jsub s sNextA) nextLen) (Fin 0) (Fin 1);
          prevV = nthOr (segSpeeds st) (i - 1) v;
          nextV = nthOr (segSpeeds st) i v;
          minPct = anglePercent ui (nthNum (turnAngle st) i);
          minV = jmul (jmin prevV nextV) minPct;
          v1 = (if jge s sPrevA \<and> jle s sPrevB then prevWindow ui v prevV minV tPrev else v);
          v2 = (if jge s sNextA \<and> jle s sNextB then nextWindow ui v1 nextV minV tNext else v1)
      in v2)"

definition speedAtS :: "dom_inputs \<Rightarrow> path_state \<Rightarrow> jsnum \<Rightarrow> jsnum" where
  "speedAtS ui st s =
     jmax (Fin 0)
       (foldl (turnWindows ui st s) (baseSegmentSpeedAtS st s)
          [1..<length (sCurveControlPoints st) - 1])"



section \<open>Camera placement and the frame loop\<close>

text \<open>
  The camera, the lead marker and the cart read \<open>sampledPts\<close> at an index and at one
  neighbour: the next sample, or the previous one at the last index. \<open>tangentReads\<close> lists
  the indices read; they are integers, since \<open>idx - 1\<close> is \<open>-1\<close> at index 0. A read out of
  range gives \<open>undefined\<close>, and the vector operation applied to it throws.
\<close>

definition tangentReads :: "path_state \<Rightarrow> nat \<Rightarrow> int list" where
  "tangentReads st idx =
     (if int idx < int (length (sampledPts st)) - 1 then [int idx, int idx + 1]
      else [int idx, int idx - 1])"

definition inBounds :: "path_state \<Rightarrow> int \<Rightarrow> bool" where
  "inBounds st i = (0 \<le> i \<and> i < int (length (sampledPts st)))"

text \<open>\<open>x || d\<close> on numbers: \<open>d\<close> when \<open>x\<close> is \<open>NaN\<close> or zero.\<close>

definition orElse :: "jsnum \<Rightarrow> jsnum \<Rightarrow> jsnum" where
  "orElse x d = (if x = NaN \<or> x = Fin 0 then d else x)"

text \<open>
  \<open>placeCameraAtPathT\<close> ignores its argument and works from \<open>rideProgressS\<close>, passed here
  as \<open>s\<close>. The pose it computes belongs to the renderer; what is kept is which samples
  it reads, for the camera and for the lead marker, and whether it throws.
\<close>

definition placeCameraReads :: "dom_inputs \<Rightarrow> path_state \<Rightarrow> jsnum \<Rightarrow> int list" where
  "placeCameraReads ui st s =
     (let idx = distanceToIndex st s;
          leadDistanceMeters = orElse (leadDistanceInput ui) (Fin 2);
          aheadS = jmod (jadd s leadDistanceMeters) (Fin (totalLen st));
          aheadIdx = distanceToIndex st aheadS
      in tangentReads st idx @ tangentReads st aheadIdx)"

definition placeCameraAtPathT :: "dom_inputs \<Rightarrow> path_state \<Rightarrow> jsnum \<Rightarrow> error option" where
  "placeCameraAtPathT ui st s =
     (if list_all (inBounds st) (placeCameraReads ui st s) then None else Some TypeError)"

text \<open>
  Steps 1 to 4 of the active branch of \<open>renderLoop\<close>: read the speed, advance the arc
  length by speed times frame time, wrap or stop at the end, convert to the curve
  parameter. Wrapping resets the score and the hearts. \<open>deltaSeconds\<close> is what the
  frame clock returns.
\<close>

definition advanceRide :: "dom_inputs \<Rightarrow> path_state \<Rightarrow> real \<Rightarrow> ride_state \<Rightarrow> ride_state" where
  "advanceRide ui st deltaSeconds r =
     (let currentSpeed = speedAtS ui st (rideProgressS r);
          s1 = jadd (rideProgressS r) (jmul currentSpeed (Fin deltaSeconds));
          r1 = r\<lparr>currentSpeedForHud := currentSpeed, rideProgressS := s1\<rparr>;
          r2 = (if jge s1 (Fin (totalLen st)) then
                  (if isRideLooping r1
                   then r1\<lparr>rideProgressS := jmod s1 (Fin (totalLen st)),
                          playerScore := 0, playerHearts := 3\<rparr>
                   else r1\<lparr>rideProgressS := Fin (totalLen st), isRideActive := False\<rparr>)
                else r1)
      in r2\<lparr>rideProgressT := sToT st (rideProgressS r2)\<rparr>)"

text \<open>
  The scoring loop of \<open>updateHudAndScoring\<close>: while the accumulator holds a tenth of a
  second, take it off and add a point if the needle is on the target.
\<close>

function drainAccumulator :: "real \<Rightarrow> int \<Rightarrow> bool \<Rightarrow> real \<times> int" where
  "drainAccumulator acc score isOverlapping =
     (if 1 / 10 \<le> acc
      then drainAccumulator (acc - 1 / 10) (if isOverlapping then score + 1 else score) isOverlapping
      else (acc, score))"
  by pat_completeness auto
termination
proof (relation "measure (\<lambda>(acc, score, isOverlapping). nat \<lceil>acc * 10\<rceil>)")
  show "wf (measure (\<lambda>(acc, score, isOverlapping). nat \<lceil>acc * 10\<rceil>))" by simp
next
  fix acc :: real and score :: int and isOverlapping :: bool
  assume a: "1 / 10 \<le> acc"
  have "\<lceil>(acc - 1 / 10) * 10\<rceil> = \<lceil>acc * 10\<rceil> - 1"
    by (simp add: algebra_simps)
  moreover have "1 \<le> \<lceil>acc * 10\<rceil>" using a by (simp add: le_ceiling_iff)
  ultimately show "((acc - 1 / 10, (if isOverlapping then score + 1 else score), isOverlapping),
      (acc, score, isOverlapping)) \<in> measure (\<lambda>(acc, score, isOverlapping). nat \<lceil>acc * 10\<rceil>)"
    by simp
qed

text \<open>
  \<open>updateHudAndScoring\<close>, as far as it changes the game state. Whether the needle
  overlaps the target is computed from the page's layout and is passed in as
  \<open>isOverlapping\<close>. Leaving the target costs a heart unless \<open>noDamageMode\<close> is set, and the
  ride stops when no heart is left. The hearts are 3 at the start, after a reset and after
  a wrap, and go down to 0 at most, so the heart display written here is always defined;
  the display is page output.
\<close>

definition updateHudAndScoring :: "bool \<Rightarrow> real \<Rightarrow> ride_state \<Rightarrow> ride_state" where
  "updateHudAndScoring isOverlapping deltaSeconds r =
     (let r1 = (if isRideActive r then
                  (case drainAccumulator (scoreAccumulatorSeconds r + deltaSeconds)
                          (playerScore r) isOverlapping of
                     (acc, score) \<Rightarrow> r\<lparr>scoreAccumulatorSeconds := acc, playerScore := score\<rparr>)
                else r);
          r2 = (if isRideActive r1 \<and> wasInsideTargetPrevFrame r1 \<and> \<not> isOverlapping then
                  (let r' = (if noDamageMode r1 then r1
                             else r1\<lparr>playerHearts := max 0 (playerHearts r1 - 1)\<rparr>)
                   in if playerHearts r' \<le> 0 then r'\<lparr>isRideActive := False\<rparr> else r')
                else r1)
      in r2\<lparr>wasInsideTargetPrevFrame := isOverlapping\<rparr>)"

text \<open>
  The game part of \<open>renderLoop\<close>: while the ride is active the advance, then the camera
  and the cart placement (steps 5 and 6); then, active or not, \<open>updateHudAndScoring\<close>. A
  placement that throws ends the frame there.
\<close>

definition renderLoop ::
  "dom_inputs \<Rightarrow> path_state \<Rightarrow> real \<Rightarrow> bool \<Rightarrow> ride_state \<Rightarrow> error option \<times> ride_state" where
  "renderLoop ui st deltaSeconds isOverlapping r =
     (if isRideActive r then
        (let r' = advanceRide ui st deltaSeconds r in
         case placeCameraAtPathT ui st (rideProgressS r') of
           Some e \<Rightarrow> (Some e, r')
         | None \<Rightarrow>
             if list_all (inBounds st) (tangentReads st (distanceToIndex st (rideProgressS r')))
             then (None, updateHudAndScoring isOverlapping deltaSeconds r')
             else (Some TypeError, r'))
      else (None, updateHudAndScoring isOverlapping deltaSeconds r))"

section \<open>Rebuilding and loading a path\<close>

text \<open>
  \<open>rebuildCurveAndRoad\<close> lifts every sample by its arc length times the height scale.
  \<open>heightScale\<close> is \<open>parseFloat(heightScaleInput.value) || 0\<close>, taken as a real.
\<close>

definition raiseSamples :: "real \<Rightarrow> path_state \<Rightarrow> path_state" where
  "raiseSamples heightScale st =
     st\<lparr>sampledPts :=
          map (\<lambda>i. case sampledPts st ! i of (x, y, z) \<Rightarrow> (x, y + cumLen st ! i * heightScale, z))
            [0..<length (sampledPts st)]\<rparr>"

text \<open>
  \<open>rebuildCurveAndRoad\<close> returns at once on fewer than two control points. Otherwise it
  runs the analysis, lifts the samples and walks over them to build the road mesh,
  reading each sample and one neighbour. The meshes themselves belong to the renderer. The
  result is the error thrown, if any, and the state at that moment.
\<close>

definition rebuildCurveAndRoad ::
  "(vec list \<Rightarrow> vec list) \<Rightarrow> real \<Rightarrow> path_state \<Rightarrow> error option \<times> path_state" where
  "rebuildCurveAndRoad getPoints heightScale st =
     (if length (sCurveControlPoints st) < 2 then (None, st)
      else
        case initializePathData getPoints st of
          Inl e \<Rightarrow> (Some e, st)
        | Inr st1 \<Rightarrow>
            (let st2 = raiseSamples heightScale (computeTurnAngles st1) in
             if list_all (\<lambda>i. list_all (inBounds st2) (tangentReads st2 i))
                  [0..<length (sampledPts st2)]
             then (None, st2) else (Some TypeError, st2)))"

text \<open>
  \<open>resetCameraToPathStart\<close> zeroes the progress, places the camera and then points the
  orbit controls at \<open>rideCurve.getPointAt(0)\<close>. The curve shares the array of control
  points, and the library's evaluation reads two of them: on fewer than two it throws.
\<close>

definition resetCameraToPathStart ::
  "dom_inputs \<Rightarrow> path_state \<Rightarrow> ride_state \<Rightarrow> error option \<times> ride_state" where
  "resetCameraToPathStart ui st r =
     (let r' = r\<lparr>rideProgressS := Fin 0, rideProgressT := Fin 0\<rparr> in
      case placeCameraAtPathT ui st (rideProgressS r') of
        Some e \<Rightarrow> (Some e, r')
      | None \<Rightarrow>
          if length (sCurveControlPoints st) < 2 then (Some TypeError, r') else (None, r'))"

text \<open>
  What \<open>loadPathFromJSON\<close> is given. \<open>Unreadable\<close> stands for every failure before the
  points of the parsed value are looked at: the fetch is refused, \<open>JSON.parse\<close> throws, or
  the parsed value is \<open>null\<close>. Of a parsed
  value only \<open>points\<close> and \<open>segmentSpeeds\<close> matter; \<open>None\<close> means the field is not an
  array. A point is an object with numeric \<open>x\<close> and \<open>z\<close>, or a value such as \<open>null\<close> whose
  \<open>x\<close> cannot be read; an object whose \<open>x\<close> or \<open>z\<close> is not a number would get \<open>NaN\<close>
  coordinates, which the real coordinates of this model do not represent.
\<close>

datatype point_json = Pt real real | NotAnObject

text \<open>
  An entry of \<open>segmentSpeeds\<close> is any JSON value. A JSON number is the number it parses
  to, which is an infinity when the literal is out of range. Every other value (a string,
  \<open>null\<close>, a boolean, an array, an object) is given by the text \<open>parseFloat\<close> converts it
  to before reading a number off its front.
\<close>

datatype speed_json = JsonNumber jsnum | JsonText string

record path_json =
  points :: "point_json list option"
  segmentSpeeds :: "speed_json list option"

datatype load_input = Unreadable | Parsed path_json

text \<open>What the \<open>catch\<close> block reports with \<open>alert\<close> and in the log.\<close>

datatype failure = FetchOrParseError | TooFewPoints | Thrown error

definition defaultSpeed :: real where
  "defaultSpeed = 10"

text \<open>
  \<open>parseFloat(v)\<close>. A number is read back unchanged. What the built-in reads off a text
  (\<open>12\<close> off \<open>12abc\<close>, \<open>NaN\<close> off \<open>abc\<close>) is the parameter \<open>readText\<close>.
\<close>

definition parseFloat :: "(string \<Rightarrow> jsnum) \<Rightarrow> speed_json \<Rightarrow> jsnum" where
  "parseFloat readText v = (case v of JsonNumber x \<Rightarrow> x | JsonText t \<Rightarrow> readText t)"

text \<open>The function mapped over the speeds: \<open>Math.max(0, parseFloat(v) || defaultSpeed)\<close>.\<close>

definition cleanSpeed :: "(string \<Rightarrow> jsnum) \<Rightarrow> speed_json \<Rightarrow> jsnum" where
  "cleanSpeed readText v = jmax (Fin 0) (orElse (parseFloat readText v) (Fin defaultSpeed))"

definition padOrTruncate :: "nat \<Rightarrow> speed_json list \<Rightarrow> speed_json list" where
  "padOrTruncate need speeds =
     (if length speeds < need
      then speeds @ replicate (need - length speeds) (JsonNumber (Fin defaultSpeed))
      else if need < length speeds then take need speeds
      else speeds)"

text \<open>
  \<open>loadPathFromJSON\<close>, with the state before the call; the result is the failure reported,
  if any, and the state after the call. The control points are emptied before the new
  points are converted, so a point that cannot be read leaves them empty.
\<close>

definition loadPathFromJSON ::
  "(vec list \<Rightarrow> vec list) \<Rightarrow> (string \<Rightarrow> jsnum) \<Rightarrow> real \<Rightarrow> dom_inputs \<Rightarrow> load_input \<Rightarrow>
     path_state \<Rightarrow> ride_state \<Rightarrow> failure option \<times> path_state \<times> ride_state" where
  "loadPathFromJSON getPoints readText heightScale ui input st r =
     (case input of
        Unreadable \<Rightarrow> (Some FetchOrParseError, st, r)
      | Parsed data \<Rightarrow>
          (case points data of
             None \<Rightarrow> (Some TooFewPoints, st, r)
           | Some pts \<Rightarrow>
               if length pts < 2 then (Some TooFewPoints, st, r)
               else if NotAnObject \<in> set pts
               then (Some (Thrown TypeError), st\<lparr>sCurveControlPoints := []\<rparr>, r)
               else
                 (let newPts = map (\<lambda>p. case p of Pt x z \<Rightarrow> (x, 0, z) | NotAnObject \<Rightarrow> (0, 0, 0)) pts;
                      st1 = st\<lparr>sCurveControlPoints := newPts\<rparr>;
                      need = length newPts - 1;
                      speeds = padOrTruncate need
                        (case segmentSpeeds data of Some sp \<Rightarrow> sp | None \<Rightarrow> []);
                      st2 = st1\<lparr>segSpeeds := map (cleanSpeed readText) speeds\<rparr>
                  in (case rebuildCurveAndRoad getPoints heightScale st2 of
                        (Some e, st3) \<Rightarrow> (Some (Thrown e), st3, r)
                      | (None, st3) \<Rightarrow>
                          (case resetCameraToPathStart ui st3 r of
                             (Some e, r') \<Rightarrow> (Some (Thrown e), st3, r')
                           | (None, r') \<Rightarrow> (None, st3, r'))))))"

section \<open>Example paths\<close>

text \<open>
  Small paths on which the theorems below are instantiated. \<open>tinyCurve\<close> and
  \<open>plateauCurve\<close> stand for a spline sampler that returns three points; the second one
  ends in two coincident points, as the library's sampler does for a path whose last three
  control points coincide. \<open>blank\<close> is a state with two control points and no table yet.
\<close>

definition tinyCurve :: "vec list \<Rightarrow> vec list" where
  "tinyCurve cps = [(0, 0, 0), (1 / 50, 0, 0), (1 / 25, 0, 0)]"

definition plateauCurve :: "vec list \<Rightarrow> vec list" where
  "plateauCurve cps = [(0, 0, 0), (1 / 50, 0, 0), (1 / 50, 0, 0)]"

definition blank :: path_state where
  "blank = \<lparr>sCurveControlPoints = [(0, 0, 0), (1 / 25, 0, 0)], segSpeeds = [Fin 10],
     sampledPts = [], cumLen = [], totalLen = 0, sAtPoint = [], turnAngle = []\<rparr>"

text \<open>The tables \<open>initializePathData\<close> builds from the two samplers.\<close>

definition tinyPath :: path_state where
  "tinyPath = \<lparr>sCurveControlPoints = [(0, 0, 0), (1 / 25, 0, 0)], segSpeeds = [Fin 10],
     sampledPts = [(0, 0, 0), (1 / 50, 0, 0), (1 / 25, 0, 0)], cumLen = [0, 1 / 50, 1 / 25],
     totalLen = 1 / 25, sAtPoint = [0, 1 / 25], turnAngle = []\<rparr>"

definition plateauPath :: path_state where
  "plateauPath = \<lparr>sCurveControlPoints = [(0, 0, 0), (1 / 25, 0, 0)], segSpeeds = [Fin 10],
     sampledPts = [(0, 0, 0), (1 / 50, 0, 0), (1 / 50, 0, 0)], cumLen = [0, 1 / 50, 1 / 50],
     totalLen = 1 / 50, sAtPoint = [0, 1 / 50], turnAngle = []\<rparr>"

text \<open>The values the page's fields hold when nothing has been edited.\<close>

definition defaults :: dom_inputs where
  "defaults = \<lparr>wPrevStartInput = Fin (625 / 1000), wPrevEndInput = Fin 1,
     wNextHoldInput = Fin 0, wNextAccelInput = Fin (5 / 10),
     p0_20_Input = Fin 100, p20_45_Input = Fin 90, p45_90_Input = Fin 75,
     p90_120_Input = Fin 60, p120_150_Input = Fin 10, p150_165_Input = Fin 5,
     p165_180_Input = Fin 1, leadDistanceInput = Fin 2\<rparr>"

text \<open>Two segments of length 10 that meet at a right angle, both with speed 10.\<close>

definition bend :: path_state where
  "bend = \<lparr>sCurveControlPoints = [(0, 0, 0), (10, 0, 0), (10, 0, 10)], segSpeeds = [Fin 10, Fin 10],
     sampledPts = [(0, 0, 0), (10, 0, 0), (10, 0, 10)], cumLen = [0, 10, 20], totalLen = 20,
     sAtPoint = [0, 10, 20], turnAngle = [0, 90, 0]\<rparr>"

definition parked :: ride_state where
  "parked = \<lparr>rideProgressS = Fin 0, rideProgressT = Fin 0, isRideActive = False,
     isRideLooping = False, currentSpeedForHud = Fin 0, playerScore = 0, playerHearts = 3,
     wasInsideTargetPrevFrame = False, scoreAccumulatorSeconds = 0, noDamageMode = False\<rparr>"

text \<open>The table \<open>rebuildCurveAndRoad\<close> leaves for \<open>tinyCurve\<close>, with no height scale.\<close>

definition rebuiltTiny :: path_state where
  "rebuiltTiny = snd (rebuildCurveAndRoad tinyCurve 0 blank)"

text \<open>
  A path whose two control points coincide: every sample is the same point and the total
  length is 0. Such a file passes the loader's checks.
\<close>

definition pointCurve :: "vec list \<Rightarrow> vec list" where
  "pointCurve cps = [(0, 0, 0), (0, 0, 0), (0, 0, 0)]"

definition pointBlank :: path_state where
  "pointBlank = \<lparr>sCurveControlPoints = [(0, 0, 0), (0, 0, 0)], segSpeeds = [Fin 10],
     sampledPts = [], cumLen = [], totalLen = 0, sAtPoint = [], turnAngle = []\<rparr>"

definition pointPath :: path_state where
  "pointPath = \<lparr>sCurveControlPoints = [(0, 0, 0), (0, 0, 0)], segSpeeds = [Fin 10],
     sampledPts = [(0, 0, 0), (0, 0, 0), (0, 0, 0)], cumLen = [0, 0, 0],
     totalLen = 0, sAtPoint = [0, 0], turnAngle = [0, 0]\<rparr>"

text \<open>A ride on its last heart that was on target in the previous frame, looping.\<close>

definition riding :: ride_state where
  "riding = \<lparr>rideProgressS = Fin 0, rideProgressT = Fin 0, isRideActive = True,
     isRideLooping = True, currentSpeedForHud = Fin 0, playerScore = 4, playerHearts = 1,
     wasInsideTargetPrevFrame = True, scoreAccumulatorSeconds = 0, noDamageMode = False\<rparr>"

text \<open>The default fields, with the field of the band from 45 to 90 degrees emptied.\<close>

definition clearedField :: dom_inputs where
  "clearedField = defaults\<lparr>p45_90_Input := NaN\<rparr>"

text \<open>The reference zig-zag of the specification, before its table is built.\<close>

definition zigzag :: path_state where
  "zigzag = \<lparr>sCurveControlPoints =
       [(0, 0, 0), (12, 0, 12), (- 12, 0, 24), (12, 0, 36), (- 12, 0, 48), (0, 0, 60)],
     segSpeeds = [Fin 10, Fin 10, Fin 10, Fin 10, Fin 10], sampledPts = [], cumLen = [], totalLen = 0,
     sAtPoint = [], turnAngle = []\<rparr>"

text \<open>The two angles that occur on the zig-zag, in degrees.\<close>

definition wideTurn :: real where
  "wideTurn = radToDeg (arccos (- (1 / sqrt 10)))"

definition sharpTurn :: real where
  "sharpTurn = radToDeg (arccos (- (3 / 5)))"

text \<open>
  A stand-in for what \<open>parseFloat\<close> reads off a text: 12 off \<open>12abc\<close>, nothing off
  any other text.
\<close>

definition readFront :: "string \<Rightarrow> jsnum" where
  "readFront t = (if t = ''12abc'' then Fin 12 else NaN)"




section \<open>Facts about numbers\<close>


lemma jmin_Fin: "jmin (Fin a) (Fin b) = Fin (min a b)"
  by (auto simp: min_def)



lemma clamp_Fin: "clamp (Fin s) (Fin lo) (Fin hi) = Fin (max lo (min hi s))"
  by (auto simp: clamp_def max_def min_def)

lemma clampDist_Fin:
  "jmax (Fin 0) (jmin (Fin s) (Fin t)) = Fin (max 0 (min s t))"
  by (auto simp: max_def min_def)




section \<open>The binary search\<close>

declare d2iLoop.simps [simp del]

declare drainAccumulator.simps [simp del]

lemma d2iLoop_stop: "\<not> lo < hi \<Longrightarrow> d2iLoop cl d lo hi = lo"
  by (subst d2iLoop.simps) simp

lemma d2iLoop_up:
  "lo < hi \<Longrightarrow> jlt (nthNum cl ((lo + hi) div 2)) d \<Longrightarrow>
   d2iLoop cl d lo hi = d2iLoop cl d ((lo + hi) div 2 + 1) hi"
  by (subst d2iLoop.simps) simp

lemma d2iLoop_down:
  "lo < hi \<Longrightarrow> \<not> jlt (nthNum cl ((lo + hi) div 2)) d \<Longrightarrow>
   d2iLoop cl d lo hi = d2iLoop cl d lo ((lo + hi) div 2)"
  by (subst d2iLoop.simps) simp

text \<open>The search never leaves the interval it was given, whatever the table holds.\<close>

lemma d2iLoop_bounds: "lo \<le> hi \<Longrightarrow> lo \<le> d2iLoop cl d lo hi \<and> d2iLoop cl d lo hi \<le> hi"
proof (induction cl d lo hi rule: d2iLoop.induct)
  case (1 cl d lo hi)
  show ?case
  proof (cases "lo < hi")
    case False
    with "1.prems" show ?thesis by (simp add: d2iLoop_stop)
  next
    case True
    define mid where "mid = (lo + hi) div 2"
    have m: "lo \<le> mid" "mid < hi" using True by (simp_all add: mid_def)
    show ?thesis
    proof (cases "jlt (nthNum cl mid) d")
      case up: True
      have "mid + 1 \<le> d2iLoop cl d (mid + 1) hi \<and> d2iLoop cl d (mid + 1) hi \<le> hi"
        using "1.IH"(1) [OF True mid_def up] m by simp
      then show ?thesis using True up m
        by (simp add: d2iLoop_up mid_def)
    next
      case down: False
      have "lo \<le> d2iLoop cl d lo mid \<and> d2iLoop cl d lo mid \<le> mid"
        using "1.IH"(2) [OF True mid_def down] m by simp
      then show ?thesis using True down m
        by (simp add: d2iLoop_down mid_def)
    qed
  qed
qed

text \<open>
  On a non-decreasing table the loop keeps the invariant of a lower-bound search:
  everything left of \<open>lo\<close> is below the target and the entry at \<open>hi\<close> is not.
\<close>

lemma d2iLoop_least:
  "lo \<le> hi \<Longrightarrow> hi < length cl \<Longrightarrow> \<forall>j<lo. cl ! j < s \<Longrightarrow> s \<le> cl ! hi \<Longrightarrow> sorted cl \<Longrightarrow>
   s \<le> cl ! d2iLoop cl (Fin s) lo hi \<and> (\<forall>j<d2iLoop cl (Fin s) lo hi. cl ! j < s)"
proof (induction cl "Fin s" lo hi rule: d2iLoop.induct)
  case (1 cl lo hi)
  show ?case
  proof (cases "lo < hi")
    case False
    with "1.prems" show ?thesis by (simp add: d2iLoop_stop)
  next
    case True
    define mid where "mid = (lo + hi) div 2"
    have m: "lo \<le> mid" "mid < hi" using True by (simp_all add: mid_def)
    have ml: "mid < length cl" using m "1.prems"(2) by simp
    show ?thesis
    proof (cases "jlt (nthNum cl mid) (Fin s)")
      case up: True
      then have lt: "cl ! mid < s" using ml by (simp add: nthNum_def)
      have below: "\<forall>j<mid + 1. cl ! j < s"
      proof (intro allI impI)
        fix j assume "j < mid + 1"
        then have "j \<le> mid" by simp
        then have "cl ! j \<le> cl ! mid" using "1.prems"(5) ml by (simp add: sorted_iff_nth_mono)
        then show "cl ! j < s" using lt by simp
      qed
      have "s \<le> cl ! d2iLoop cl (Fin s) (mid + 1) hi \<and>
            (\<forall>j<d2iLoop cl (Fin s) (mid + 1) hi. cl ! j < s)"
        using "1.hyps"(1) [OF True mid_def up _ "1.prems"(2) below "1.prems"(4) "1.prems"(5)] m
        by simp
      then show ?thesis using True up
        by (simp add: d2iLoop_up mid_def)
    next
      case down: False
      then have ge: "s \<le> cl ! mid" using ml by (simp add: nthNum_def)
      have "s \<le> cl ! d2iLoop cl (Fin s) lo mid \<and> (\<forall>j<d2iLoop cl (Fin s) lo mid. cl ! j < s)"
        using "1.hyps"(2) [OF True mid_def down m(1) ml "1.prems"(3) ge "1.prems"(5)] by simp
      then show ?thesis using True down
        by (simp add: d2iLoop_down mid_def)
    qed
  qed
qed

text \<open>No entry compares below \<open>NaN\<close>, so the search for \<open>NaN\<close> walks down to index 0.\<close>

lemma d2iLoop_NaN: "d2iLoop cl NaN 0 hi = 0"
proof (induction hi rule: less_induct)
  case (less hi)
  show ?case
  proof (cases "0 < hi")
    case False
    then show ?thesis by (simp add: d2iLoop_stop)
  next
    case True
    then have "hi div 2 < hi" by simp
    then have "d2iLoop cl NaN 0 (hi div 2) = 0" by (rule less.IH)
    moreover have "\<not> jlt (nthNum cl (hi div 2)) NaN" by (cases "nthNum cl (hi div 2)") simp_all
    ultimately show ?thesis using True by (simp add: d2iLoop_down)
  qed
qed

lemma distanceToIndex_in_range:
  assumes ne: "cumLen st \<noteq> []"
  shows "distanceToIndex st d < length (cumLen st)"
proof -
  have "d2iLoop (cumLen st) (jmax (Fin 0) (jmin d (Fin (totalLen st)))) 0 (length (cumLen st) - 1)
        \<le> length (cumLen st) - 1"
    using d2iLoop_bounds [of 0 "length (cumLen st) - 1"] by simp
  moreover have "length (cumLen st) - 1 < length (cumLen st)" using ne by simp
  ultimately show ?thesis by (simp add: distanceToIndex_def)
qed

lemma distanceToIndex_NaN: "distanceToIndex st NaN = 0"
  by (simp add: distanceToIndex_def d2iLoop_NaN)

lemma distanceToIndex_least:
  assumes ne: "cumLen st \<noteq> []" and so: "sorted (cumLen st)"
    and tl: "totalLen st = last (cumLen st)" and s0: "0 \<le> s" and s1: "s \<le> totalLen st"
  shows "s \<le> cumLen st ! distanceToIndex st (Fin s) \<and>
         (\<forall>j<distanceToIndex st (Fin s). cumLen st ! j < s)"
proof -
  have c: "max 0 (min s (totalLen st)) = s" using s0 s1 by simp
  have hi: "length (cumLen st) - 1 < length (cumLen st)" using ne by simp
  have top: "s \<le> cumLen st ! (length (cumLen st) - 1)"
    using s1 tl ne by (simp add: last_conv_nth)
  show ?thesis
    unfolding distanceToIndex_def clampDist_Fin c
    by (rule d2iLoop_least [OF _ hi _ top so]) simp_all
qed

lemma distanceToIndex_mono_in:
  assumes ne: "cumLen st \<noteq> []" and so: "sorted (cumLen st)"
    and tl: "totalLen st = last (cumLen st)"
    and a: "0 \<le> a" and ab: "a \<le> b" and b: "b \<le> totalLen st"
  shows "distanceToIndex st (Fin a) \<le> distanceToIndex st (Fin b)"
proof (rule ccontr)
  assume "\<not> ?thesis"
  then have lt: "distanceToIndex st (Fin b) < distanceToIndex st (Fin a)" by simp
  have "cumLen st ! distanceToIndex st (Fin b) < a"
    using distanceToIndex_least [OF ne so tl a] ab b lt by simp
  moreover have "b \<le> cumLen st ! distanceToIndex st (Fin b)"
    using distanceToIndex_least [OF ne so tl _ b] a ab by simp
  ultimately show False using ab by simp
qed

lemma distanceToIndex_clamped:
  "distanceToIndex st (Fin s) = distanceToIndex st (Fin (max 0 (min s (totalLen st))))"
  by (simp add: distanceToIndex_def clampDist_Fin)

text \<open>
  Claim C3. On a non-empty, non-decreasing cumulative-length table whose last entry is
  \<open>totalLen\<close>, \<open>distanceToIndex s\<close> for \<open>s\<close> in \<open>[0, totalLen]\<close> is the smallest index
  whose entry is at least \<open>s\<close>: the entry there is \<open>\<ge> s\<close> and every entry before it is
  \<open>< s\<close>. The function is monotone: \<open>s1 \<le> s2\<close> gives
  \<open>distanceToIndex s1 \<le> distanceToIndex s2\<close>.
\<close>

theorem distanceToIndex_smallest_and_monotone:
  assumes ne: "cumLen st \<noteq> []" and so: "sorted (cumLen st)"
    and tl: "totalLen st = last (cumLen st)"
    and s0: "0 \<le> s" and s1: "s \<le> totalLen st" and le: "s1 \<le> s2"
  shows "distanceToIndex st (Fin s) < length (cumLen st) \<and>
         s \<le> cumLen st ! distanceToIndex st (Fin s) \<and>
         (\<forall>j<distanceToIndex st (Fin s). cumLen st ! j < s) \<and>
         distanceToIndex st (Fin s1) \<le> distanceToIndex st (Fin s2)"
proof -
  have t0: "0 \<le> totalLen st" using s0 s1 by simp
  let ?c = "\<lambda>x. max 0 (min x (totalLen st))"
  have "0 \<le> ?c s1" "?c s1 \<le> ?c s2" "?c s2 \<le> totalLen st" using le t0 by auto
  then have "distanceToIndex st (Fin (?c s1)) \<le> distanceToIndex st (Fin (?c s2))"
    by (rule distanceToIndex_mono_in [OF ne so tl])
  then have mono: "distanceToIndex st (Fin s1) \<le> distanceToIndex st (Fin s2)"
    using distanceToIndex_clamped [of st s1] distanceToIndex_clamped [of st s2] by simp
  show ?thesis
    using distanceToIndex_in_range [OF ne] distanceToIndex_least [OF ne so tl s0 s1] mono
    by simp
qed

theorem distanceToIndex_smallest_and_monotone_witness:
  "distanceToIndex tinyPath (Fin (3 / 100)) < length (cumLen tinyPath) \<and>
   3 / 100 \<le> cumLen tinyPath ! distanceToIndex tinyPath (Fin (3 / 100)) \<and>
   distanceToIndex tinyPath (Fin (1 / 100)) \<le> distanceToIndex tinyPath (Fin (3 / 100))"
  using distanceToIndex_smallest_and_monotone [of tinyPath "3 / 100" "1 / 100" "3 / 100"]
  by (simp add: tinyPath_def)

section \<open>The arc-length table\<close>

lemma distanceTo_nonneg: "0 \<le> distanceTo a b"
  by (simp add: distanceTo_def split: prod.splits)

lemma distanceTo_along_x: "distanceTo (ax, y, z) (bx, y, z) = \<bar>ax - bx\<bar>"
  by (simp add: distanceTo_def)

lemma sorted_le_last: "sorted (xs :: real list) \<Longrightarrow> x \<in> set xs \<Longrightarrow> x \<le> last xs"
proof -
  assume so: "sorted xs" and x: "x \<in> set xs"
  then obtain i where i: "i < length xs" "xs ! i = x" by (auto simp: in_set_conv_nth)
  then have "xs ! i \<le> xs ! (length xs - 1)"
    using so by (intro sorted_nth_mono) auto
  moreover have "xs \<noteq> []" using i by auto
  ultimately show ?thesis using i by (simp add: last_conv_nth)
qed

lemma pushSample_inv: "tableInv tb \<Longrightarrow> tableInv (pushSample p tb)"
proof -
  assume inv: "tableInv tb"
  obtain sp cl acc where tb: "tb = (sp, cl, acc)" by (cases tb) auto
  have h: "length cl = length sp" "cl \<noteq> []" "cl ! 0 = 0" "sorted cl" "last cl = acc"
    using inv by (simp_all add: tableInv_def tb)
  have "\<forall>x\<in>set cl. x \<le> acc + distanceTo p (last sp)"
  proof
    fix x assume "x \<in> set cl"
    then have "x \<le> acc" using sorted_le_last [OF h(4)] h(5) by simp
    then show "x \<le> acc + distanceTo p (last sp)" using distanceTo_nonneg [of p "last sp"] by simp
  qed
  moreover have "sp \<noteq> []" using h by auto
  ultimately show ?thesis using h
    by (simp add: tableInv_def tb pushSample_def Let_def sorted_append nth_append)
qed

lemma subdivide_inv: "tableInv tb \<Longrightarrow> tableInv (subdivide a b tb)"
proof -
  assume inv: "tableInv tb"
  have "tableInv t \<Longrightarrow> tableInv (foldl (\<lambda>t k. pushSample (f k) t) t ks)"
    for f :: "nat \<Rightarrow> vec" and ks t
    by (induction ks arbitrary: t) (simp_all add: pushSample_inv)
  from this [OF inv] show ?thesis
    unfolding subdivide_def Let_def .
qed

lemma buildTable_inv: "tableInv tb \<Longrightarrow> tableInv (buildTable ps tb)"
  by (induction ps tb rule: buildTable.induct) (simp_all add: subdivide_inv)

lemma initializePathData_table:
  assumes "initializePathData getPoints st = Inr st'"
  shows "tableInv (sampledPts st', cumLen st', totalLen st')"
proof -
  obtain p0 ps where ps: "getPoints (sCurveControlPoints st) = p0 # ps"
    using assms by (cases "getPoints (sCurveControlPoints st)") (simp_all add: initializePathData_def)
  obtain sp cl acc where b: "buildTable (p0 # ps) ([p0], [0], 0) = (sp, cl, acc)"
    by (cases "buildTable (p0 # ps) ([p0], [0], 0)") auto
  have "tableInv ([p0], [0], 0)" by (simp add: tableInv_def)
  then have "tableInv (sp, cl, acc)" using buildTable_inv [of "([p0], [0], 0)" "p0 # ps"] b by simp
  moreover have "sampledPts st' = sp" "cumLen st' = cl" "totalLen st' = acc"
    using assms ps b by (auto simp: initializePathData_def)
  ultimately show ?thesis by simp
qed


text \<open>Unfolding the builder on a concrete list of points.\<close>

lemmas build_simps = initializePathData_def nearestIndex_def nearestStep_def upt_rec
  distanceTo_along_x subdivide_def stepsBetween_def targetStep_def pushSample_def
  lerpVectors_def Let_def

lemma tinyPath_built: "initializePathData tinyCurve blank = Inr tinyPath"
  by (simp add: build_simps tinyCurve_def blank_def tinyPath_def)

lemma plateauPath_built: "initializePathData plateauCurve blank = Inr plateauPath"
  by (simp add: build_simps plateauCurve_def blank_def plateauPath_def)



section \<open>Arc length to curve parameter: the end points\<close>

text \<open>Unfolding the search on a concrete table.\<close>

lemmas d2i_eval = distanceToIndex_def d2iLoop_stop d2iLoop_up d2iLoop_down nthNum_def


lemma distanceToIndex_zero:
  assumes ne: "cumLen st \<noteq> []" and z: "cumLen st ! 0 = 0" and so: "sorted (cumLen st)"
    and tl: "totalLen st = last (cumLen st)" and pos: "0 \<le> totalLen st"
  shows "distanceToIndex st (Fin 0) = 0"
proof (rule ccontr)
  assume "distanceToIndex st (Fin 0) \<noteq> 0"
  then have "0 < distanceToIndex st (Fin 0)" by simp
  then have "cumLen st ! 0 < 0"
    using distanceToIndex_least [OF ne so tl _ pos] by simp
  then show False using z by simp
qed

lemma distanceToIndex_total:
  assumes ne: "cumLen st \<noteq> []" and so: "sorted (cumLen st)"
    and tl: "totalLen st = last (cumLen st)" and pos: "0 \<le> totalLen st"
    and np: "\<forall>j. j + 1 < length (cumLen st) \<longrightarrow> cumLen st ! j < totalLen st"
  shows "distanceToIndex st (Fin (totalLen st)) = length (cumLen st) - 1"
proof -
  let ?i = "distanceToIndex st (Fin (totalLen st))"
  have le: "totalLen st \<le> cumLen st ! ?i"
    using distanceToIndex_least [OF ne so tl pos] by simp
  have "?i < length (cumLen st)" by (rule distanceToIndex_in_range [OF ne])
  moreover have "\<not> ?i + 1 < length (cumLen st)"
    using np le by (auto simp: not_less [symmetric])
  ultimately show ?thesis by simp
qed

text \<open>
  Claim C4, as stated, fails on a table that ends in a run of equal entries: the search
  returns the first index of the run, which is not the last index, and \<open>sToT\<close>
  interpolates. \<open>plateauPath\<close> is the table built from three sampled points of which the
  last two coincide; it has positive length and three samples, and \<open>sToT\<close> of its total
  length is one half.
\<close>

theorem sToT_total_length_counterexample:
  "initializePathData plateauCurve blank = Inr plateauPath \<and>
   0 < totalLen plateauPath \<and> 2 \<le> length (sampledPts plateauPath) \<and>
   sToT plateauPath (Fin (totalLen plateauPath)) = Fin (1 / 2)"
  by (simp add: plateauPath_built)
     (simp add: sToT_def clamp_def jsub_def Let_def d2i_eval plateauPath_def)

text \<open>
  Claim C4, amended. For a built table (non-empty, starting at 0, non-decreasing, ending
  at \<open>totalLen\<close>): \<open>sToT 0 = 0\<close>; and if the total length is positive and the last entry
  is strictly larger than the entry before it, then \<open>sToT totalLen = 1\<close> and
  \<open>sToT s = 1\<close> for every finite \<open>s\<close> at or beyond \<open>totalLen\<close>. For every state with
  \<open>totalLen = 0\<close>, and for every input that is \<open>NaN\<close> or infinite, \<open>sToT\<close> is 0.
\<close>

theorem sToT_endpoints:
  assumes ne: "cumLen st \<noteq> []" and z: "cumLen st ! 0 = 0" and so: "sorted (cumLen st)"
    and tl: "totalLen st = last (cumLen st)"
    and deg: "totalLen st0 = 0 \<or> \<not> isFinite x"
  shows "sToT st (Fin 0) = Fin 0 \<and>
         (0 < totalLen st \<and> cumLen st ! (length (cumLen st) - 2) < totalLen st \<and>
          totalLen st \<le> s \<longrightarrow>
            sToT st (Fin (totalLen st)) = Fin 1 \<and> sToT st (Fin s) = Fin 1) \<and>
         sToT st0 x = Fin 0"
proof -
  have "cumLen st ! 0 \<in> set (cumLen st)" using ne by simp
  then have p0: "0 \<le> totalLen st" using sorted_le_last [OF so] z tl by simp
  have a: "sToT st (Fin 0) = Fin 0"
    using p0 distanceToIndex_zero [OF ne z so tl p0]
    by (simp add: sToT_def clamp_Fin Let_def)
  have b: "sToT st (Fin (totalLen st)) = Fin 1 \<and> sToT st (Fin s) = Fin 1"
    if pos: "0 < totalLen st" and np: "cumLen st ! (length (cumLen st) - 2) < totalLen st"
      and ge: "totalLen st \<le> s"
  proof -
    have nz: "totalLen st \<noteq> 0" using pos by simp
    have len: "2 \<le> length (cumLen st)"
    proof (rule ccontr)
      assume "\<not> 2 \<le> length (cumLen st)"
      moreover have "length (cumLen st) \<noteq> 0" using ne by simp
      ultimately have "length (cumLen st) = 1" by linarith
      then have "last (cumLen st) = cumLen st ! 0" using ne by (simp add: last_conv_nth)
      then show False using z tl pos by simp
    qed
    have np': "\<forall>j. j + 1 < length (cumLen st) \<longrightarrow> cumLen st ! j < totalLen st"
    proof (intro allI impI)
      fix j assume j: "j + 1 < length (cumLen st)"
      then have "cumLen st ! j \<le> cumLen st ! (length (cumLen st) - 2)"
        using so by (intro sorted_nth_mono) auto
      then show "cumLen st ! j < totalLen st" using np by simp
    qed
    have idx: "distanceToIndex st (Fin (totalLen st)) = length (cumLen st) - 1"
      by (rule distanceToIndex_total [OF ne so tl p0 np'])
    have c: "max 0 (min (totalLen st) s) = totalLen st" using ge p0 by simp
    have "sToT st (Fin s) = Fin 1"
      using nz len idx by (simp add: sToT_def clamp_Fin c Let_def)
    moreover have "sToT st (Fin (totalLen st)) = Fin 1"
      using nz len idx p0 by (simp add: sToT_def clamp_Fin Let_def)
    ultimately show ?thesis by simp
  qed
  have d: "sToT st0 x = Fin 0" using deg by (auto simp: sToT_def)
  show ?thesis using a b d by blast
qed

theorem sToT_endpoints_witness:
  "sToT tinyPath (Fin 0) = Fin 0 \<and> sToT tinyPath (Fin (totalLen tinyPath)) = Fin 1 \<and>
   sToT tinyPath (Fin 7) = Fin 1 \<and> sToT tinyPath PInf = Fin 0 \<and> sToT blank (Fin 7) = Fin 0 \<and>
   sToT plateauPath (Fin 0) = Fin 0"
proof -
  have "sToT tinyPath (Fin 0) = Fin 0 \<and> sToT tinyPath (Fin (totalLen tinyPath)) = Fin 1 \<and>
        sToT tinyPath (Fin 7) = Fin 1 \<and> sToT tinyPath PInf = Fin 0"
    using sToT_endpoints [of tinyPath tinyPath PInf 7] by (simp add: tinyPath_def)
  moreover have "sToT blank (Fin 7) = Fin 0"
    using sToT_endpoints [of tinyPath blank "Fin 7" 7] by (simp add: tinyPath_def blank_def)
  moreover have "sToT plateauPath (Fin 0) = Fin 0"
    using sToT_endpoints [of plateauPath blank "Fin 7" 7] by (simp add: plateauPath_def blank_def)
  ultimately show ?thesis by simp
qed

section \<open>Sample reads stay in bounds\<close>

lemma tangentReads_inBounds:
  assumes "idx < length (sampledPts st)" "2 \<le> length (sampledPts st)"
  shows "list_all (inBounds st) (tangentReads st idx)"
  using assms by (auto simp: tangentReads_def inBounds_def)

lemma rebuild_lengths:
  assumes build: "rebuildCurveAndRoad getPoints heightScale st0 = (None, st1)"
    and cps: "2 \<le> length (sCurveControlPoints st0)"
  shows "length (cumLen st1) = length (sampledPts st1) \<and> 2 \<le> length (sampledPts st1)"
proof -
  obtain st' where init: "initializePathData getPoints st0 = Inr st'"
    using build cps by (cases "initializePathData getPoints st0") (auto simp: rebuildCurveAndRoad_def)
  define st2 where "st2 = raiseSamples heightScale (computeTurnAngles st')"
  have inv: "tableInv (sampledPts st', cumLen st', totalLen st')"
    by (rule initializePathData_table [OF init])
  have len: "length (sampledPts st2) = length (sampledPts st')" "cumLen st2 = cumLen st'"
    by (simp_all add: st2_def raiseSamples_def computeTurnAngles_def Let_def)
  have ok: "list_all (\<lambda>i. list_all (inBounds st2) (tangentReads st2 i)) [0..<length (sampledPts st2)]"
    and eq: "st1 = st2"
    using build cps init by (auto simp: rebuildCurveAndRoad_def st2_def Let_def split: if_splits)
  have "length (cumLen st') = length (sampledPts st')" "cumLen st' \<noteq> []"
    using inv by (simp_all add: tableInv_def)
  then have pos: "0 < length (sampledPts st2)" using len by (cases "cumLen st'") auto
  then have "0 \<in> set [0..<length (sampledPts st2)]" by simp
  then have "list_all (inBounds st2) (tangentReads st2 0)"
    using ok unfolding list_all_iff [of _ "[0..<length (sampledPts st2)]"] by blast
  then have "length (sampledPts st2) \<noteq> 1"
    by (auto simp: tangentReads_def inBounds_def)
  then have "2 \<le> length (sampledPts st2)" using pos by linarith
  then show ?thesis using inv len eq by (simp add: tableInv_def)
qed

text \<open>
  Claim C10. On any state with a non-empty cumulative-length table, \<open>distanceToIndex\<close>
  returns an index below the table's length for every input: a real, \<open>NaN\<close> or an
  infinity, negative or beyond \<open>totalLen\<close>. After \<open>rebuildCurveAndRoad\<close> has built a
  path of two or more control points without throwing, there are at least two samples,
  and for every arc length \<open>s\<close> and every lead distance all sample indices read by
  \<open>placeCameraAtPathT\<close> and by the cart placement of the frame loop are in bounds, so
  neither throws.
\<close>

theorem sample_reads_in_bounds:
  assumes ne: "cumLen st \<noteq> []"
    and build: "rebuildCurveAndRoad getPoints heightScale st0 = (None, st1)"
    and cps: "2 \<le> length (sCurveControlPoints st0)"
  shows "distanceToIndex st d < length (cumLen st) \<and>
         2 \<le> length (sampledPts st1) \<and>
         list_all (inBounds st1) (placeCameraReads ui st1 s) \<and>
         list_all (inBounds st1) (tangentReads st1 (distanceToIndex st1 s)) \<and>
         placeCameraAtPathT ui st1 s = None \<and>
         fst (renderLoop ui st1 deltaSeconds isOverlapping r) = None"
proof -
  have l: "length (cumLen st1) = length (sampledPts st1)" "2 \<le> length (sampledPts st1)"
    using rebuild_lengths [OF build cps] by simp_all
  then have ne1: "cumLen st1 \<noteq> []" by auto
  have idx: "distanceToIndex st1 x < length (sampledPts st1)" for x
    using distanceToIndex_in_range [OF ne1, of x] l by simp
  have t: "list_all (inBounds st1) (tangentReads st1 (distanceToIndex st1 x))" for x
    by (rule tangentReads_inBounds [OF idx l(2)])
  have cam: "list_all (inBounds st1) (placeCameraReads ui st1 x)" for x
    using t by (simp add: placeCameraReads_def Let_def)
  then have pc: "placeCameraAtPathT ui st1 x = None" for x
    by (simp add: placeCameraAtPathT_def)
  have "fst (renderLoop ui st1 deltaSeconds isOverlapping r) = None"
    using pc t by (simp add: renderLoop_def Let_def)
  then show ?thesis using distanceToIndex_in_range [OF ne] l t cam pc by simp
qed

text \<open>Unfolding the rebuild on a concrete path.\<close>

lemmas rebuild_eval = rebuildCurveAndRoad_def raiseSamples_def computeTurnAngles_def
  turnAngleAt_def normalize_def vlength_def dot_def setY_def subVectors_def radToDeg_def
  tangentReads_def inBounds_def

lemma rebuiltTiny_ok: "rebuildCurveAndRoad tinyCurve 0 blank = (None, rebuiltTiny)"
  by (simp add: rebuiltTiny_def rebuild_eval tinyPath_built) (simp add: tinyPath_def blank_def)

theorem sample_reads_in_bounds_witness:
  "distanceToIndex tinyPath NaN < length (cumLen tinyPath) \<and>
   2 \<le> length (sampledPts rebuiltTiny) \<and>
   list_all (inBounds rebuiltTiny) (placeCameraReads defaults rebuiltTiny NInf) \<and>
   list_all (inBounds rebuiltTiny) (tangentReads rebuiltTiny (distanceToIndex rebuiltTiny (Fin 7))) \<and>
   placeCameraAtPathT defaults rebuiltTiny NaN = None"
proof -
  have ne: "cumLen tinyPath \<noteq> []" by (simp add: tinyPath_def)
  have cps: "2 \<le> length (sCurveControlPoints blank)" by (simp add: blank_def)
  show ?thesis
    using sample_reads_in_bounds [OF ne rebuiltTiny_ok cps, of NaN defaults NInf 0 True parked]
      sample_reads_in_bounds [OF ne rebuiltTiny_ok cps, of NaN defaults "Fin 7" 0 True parked]
      sample_reads_in_bounds [OF ne rebuiltTiny_ok cps, of NaN defaults NaN 0 True parked]
    by simp
qed

section \<open>The speed profile away from the turns\<close>










section \<open>The speed profile and empty fields\<close>

text \<open>Unfolding the speed profile on a concrete path.\<close>

lemmas speed_eval = speedAtS_def baseSegmentSpeedAtS_def turnWindows_def prevWindow_def
  nextWindow_def anglePercent_def nthOr_def nthNum_def clamp_def lerp_def jsub_def jge_def
  jgt_def eps_def Let_def upt_rec infOfSign_def

text \<open>
  \<open>Math.max(0, v)\<close> keeps a \<open>NaN\<close>: the result of \<open>speedAtS\<close> is a number that is at
  least 0, or it is \<open>NaN\<close>.
\<close>

lemma speedAtS_never_negative:
  "speedAtS ui st s = NaN \<or> jge (speedAtS ui st s) (Fin 0)"
proof -
  define y where "y = foldl (turnWindows ui st s) (baseSegmentSpeedAtS st s)
          [1..<length (sCurveControlPoints st) - 1]"
  have "jmax (Fin 0) y = NaN \<or> jge (jmax (Fin 0) y) (Fin 0)"
    by (cases y) (auto simp: jge_def)
  then show ?thesis by (simp add: speedAtS_def y_def)
qed

lemma speedAtS_Fin_nonneg: "speedAtS ui st s = Fin v \<Longrightarrow> 0 \<le> v"
proof -
  assume a: "speedAtS ui st s = Fin v"
  define y where "y = foldl (turnWindows ui st s) (baseSegmentSpeedAtS st s)
          [1..<length (sCurveControlPoints st) - 1]"
  have "jmax (Fin 0) y = Fin v" using a by (simp add: speedAtS_def y_def)
  then show ?thesis by (cases y) (auto split: if_splits)
qed

text \<open>
  Claim C1 on the code. With the field of the 45 to 90 degree band empty, \<open>parseFloat\<close>
  gives \<open>NaN\<close>; on the right-angle bend at \<open>s = 8\<close>, inside the approach window of the
  turn, the interpolation towards the minimum speed is \<open>NaN\<close>, \<open>Math.max(0, NaN)\<close> is
  \<open>NaN\<close>, and \<open>NaN >= 0\<close> is false.
\<close>

theorem speedAtS_cleared_field:
  "speedAtS clearedField bend (Fin 8) = NaN \<and> \<not> jge (speedAtS clearedField bend (Fin 8)) (Fin 0)"
  by (simp add: speed_eval clearedField_def defaults_def bend_def)

section \<open>The end of the path in the frame loop\<close>

lemma jmod_wraps:
  assumes "0 \<le> a" "0 < b"
  shows "\<exists>x. jmod (Fin a) (Fin b) = Fin x \<and> 0 \<le> x \<and> x < b"
proof -
  have q: "0 \<le> a / b" using assms by simp
  have lo: "of_int \<lfloor>a / b\<rfloor> * b \<le> a"
    using assms(2) floor_divide_lower by blast
  have hi: "a < (of_int \<lfloor>a / b\<rfloor> + 1) * b"
    using assms(2) floor_divide_upper by blast
  have "jmod (Fin a) (Fin b) = Fin (a - b * of_int \<lfloor>a / b\<rfloor>)"
    using assms q by (simp add: jtrunc_def)
  moreover have "0 \<le> a - b * of_int \<lfloor>a / b\<rfloor>" using lo by (simp add: mult.commute)
  moreover have "a - b * of_int \<lfloor>a / b\<rfloor> < b" using hi by (simp add: algebra_simps)
  ultimately show ?thesis by blast
qed

lemma pointPath_built: "rebuildCurveAndRoad pointCurve 0 pointBlank = (None, pointPath)"
  by (simp add: rebuild_eval build_simps pointCurve_def pointBlank_def pointPath_def)

text \<open>
  \<open>updateHudAndScoring\<close> never touches the progress, never restarts a ride, and stops a
  ride only when no heart is left.
\<close>

lemma updateHudAndScoring_progress:
  "rideProgressS (updateHudAndScoring isOverlapping deltaSeconds r) = rideProgressS r"
  by (simp add: updateHudAndScoring_def Let_def split: prod.splits)

lemma updateHudAndScoring_stopped:
  "\<not> isRideActive r \<Longrightarrow> \<not> isRideActive (updateHudAndScoring isOverlapping deltaSeconds r)"
  by (simp add: updateHudAndScoring_def Let_def split: prod.splits)

lemma updateHudAndScoring_hearts:
  "isRideActive r \<Longrightarrow> 2 \<le> playerHearts r \<Longrightarrow>
   isRideActive (updateHudAndScoring isOverlapping deltaSeconds r)"
  by (simp add: updateHudAndScoring_def Let_def split: prod.splits)

text \<open>The state a frame of an active ride ends in: the advance, with or without the scoring.\<close>

lemma renderLoop_active:
  assumes "isRideActive r"
  shows "snd (renderLoop ui st deltaSeconds isOverlapping r) = advanceRide ui st deltaSeconds r \<or>
         snd (renderLoop ui st deltaSeconds isOverlapping r)
           = updateHudAndScoring isOverlapping deltaSeconds (advanceRide ui st deltaSeconds r)"
  using assms by (simp add: renderLoop_def Let_def split: option.splits)

text \<open>
  Claim C5, as stated, fails on a path of total length 0: every advance reaches the end,
  and with looping on \<open>rideProgressS %= 0\<close> leaves \<open>NaN\<close>, which is in no interval.
\<close>

theorem renderLoop_wrap_counterexample:
  "rebuildCurveAndRoad pointCurve 0 pointBlank = (None, pointPath) \<and>
   isRideActive riding \<and> isRideLooping riding \<and> rideProgressS riding = Fin 0 \<and>
   rideProgressS (snd (renderLoop defaults pointPath (1 / 60) True riding)) = NaN"
  by (simp add: pointPath_built)
     (simp add: renderLoop_def advanceRide_def updateHudAndScoring_progress speed_eval
        pointPath_def riding_def split: option.splits)

text \<open>
  Claim C5, amended. On a frame while the ride is active, on a path of positive total
  length, with \<open>rideProgressS\<close> a finite number that is at least 0, a frame time that is at
  least 0 and a finite speed \<open>v\<close>: if \<open>rideProgressS + v * deltaSeconds\<close> reaches or exceeds
  \<open>totalLen\<close> then with looping on \<open>rideProgressS\<close> becomes the remainder modulo
  \<open>totalLen\<close>, which lies in \<open>[0, totalLen)\<close>, and the ride is active after the frame, and
  with looping off \<open>rideProgressS\<close> becomes exactly \<open>totalLen\<close> and the ride is inactive;
  otherwise \<open>rideProgressS\<close> becomes that sum, which lies in \<open>[0, totalLen)\<close>. The frame is the whole game part of
  \<open>renderLoop\<close>, the scoring with its loss of hearts included, whether or not the needle
  is on the target.
\<close>

theorem renderLoop_end_of_path:
  assumes active: "isRideActive r" and pos: "0 < totalLen st"
    and s: "rideProgressS r = Fin s0" and s0: "0 \<le> s0"
    and dt: "0 \<le> deltaSeconds"
    and v: "speedAtS ui st (Fin s0) = Fin v"
    and r': "r' = snd (renderLoop ui st deltaSeconds isOverlapping r)"
  shows "(totalLen st \<le> s0 + v * deltaSeconds \<and> isRideLooping r \<longrightarrow>
            rideProgressS r' = jmod (Fin (s0 + v * deltaSeconds)) (Fin (totalLen st)) \<and>
            (\<exists>x. rideProgressS r' = Fin x \<and> 0 \<le> x \<and> x < totalLen st) \<and> isRideActive r') \<and>
         (totalLen st \<le> s0 + v * deltaSeconds \<and> \<not> isRideLooping r \<longrightarrow>
            rideProgressS r' = Fin (totalLen st) \<and> \<not> isRideActive r') \<and>
         (s0 + v * deltaSeconds < totalLen st \<longrightarrow>
            rideProgressS r' = Fin (s0 + v * deltaSeconds) \<and>
            (\<exists>x. rideProgressS r' = Fin x \<and> 0 \<le> x \<and> x < totalLen st))"
proof -
  let ?a = "advanceRide ui st deltaSeconds r"
  have v0: "0 \<le> v" by (rule speedAtS_Fin_nonneg [OF v])
  then have n0: "0 \<le> s0 + v * deltaSeconds" using s0 dt by simp
  have wrap: "\<exists>x. jmod (Fin (s0 + v * deltaSeconds)) (Fin (totalLen st)) = Fin x \<and> 0 \<le> x \<and> x < totalLen st"
    by (rule jmod_wraps [OF n0 pos])
  have prog: "rideProgressS r' = rideProgressS ?a"
    using renderLoop_active [OF active, of ui st deltaSeconds isOverlapping] r'
    by (auto simp: updateHudAndScoring_progress)
  have looped: "rideProgressS ?a = jmod (Fin (s0 + v * deltaSeconds)) (Fin (totalLen st)) \<and>
      isRideActive ?a \<and> playerHearts ?a = 3"
    if "totalLen st \<le> s0 + v * deltaSeconds" "isRideLooping r"
    using that active unfolding advanceRide_def Let_def s v
    by (simp add: jge_def del: jmod.simps)
  have stopped: "rideProgressS ?a = Fin (totalLen st) \<and> \<not> isRideActive ?a"
    if "totalLen st \<le> s0 + v * deltaSeconds" "\<not> isRideLooping r"
    using that unfolding advanceRide_def Let_def s v
    by (simp add: jge_def)
  have inside: "rideProgressS ?a = Fin (s0 + v * deltaSeconds)"
    if "s0 + v * deltaSeconds < totalLen st"
    using that unfolding advanceRide_def Let_def s v
    by (simp add: jge_def)
  have c1: "isRideActive r'" if "totalLen st \<le> s0 + v * deltaSeconds" "isRideLooping r"
    using renderLoop_active [OF active, of ui st deltaSeconds isOverlapping] r' looped [OF that]
      updateHudAndScoring_hearts [of ?a isOverlapping deltaSeconds]
    by auto
  have c2: "\<not> isRideActive r'" if "totalLen st \<le> s0 + v * deltaSeconds" "\<not> isRideLooping r"
    using renderLoop_active [OF active, of ui st deltaSeconds isOverlapping] r' stopped [OF that]
      updateHudAndScoring_stopped [of ?a isOverlapping deltaSeconds]
    by auto
  show ?thesis
    using prog looped stopped inside c1 c2 wrap n0 by auto
qed

theorem renderLoop_end_of_path_witness:
  "rideProgressS (snd (renderLoop defaults bend 1 False (riding\<lparr>rideProgressS := Fin 15\<rparr>)))
     = Fin 5 \<and>
   isRideActive (snd (renderLoop defaults bend 1 False (riding\<lparr>rideProgressS := Fin 15\<rparr>)))"
proof -
  have v: "speedAtS defaults bend (Fin 15) = Fin 10"
    by (simp add: speed_eval defaults_def bend_def)
  show ?thesis
    using renderLoop_end_of_path [of "riding\<lparr>rideProgressS := Fin 15\<rparr>" bend 15 1 defaults 10 _ False,
        OF _ _ _ _ _ v refl]
    by (simp add: riding_def bend_def jtrunc_def)
qed

text \<open>
  Inside the path the ride can stop all the same: leaving the target on the last heart
  stops it, so nothing is said there about the ride staying active.
\<close>

lemma renderLoop_last_heart:
  "rideProgressS (snd (renderLoop defaults bend (1 / 10) False (riding\<lparr>rideProgressS := Fin 3\<rparr>)))
     = Fin 4 \<and>
   \<not> isRideActive (snd (renderLoop defaults bend (1 / 10) False (riding\<lparr>rideProgressS := Fin 3\<rparr>)))"
  by (simp add: renderLoop_def advanceRide_def updateHudAndScoring_def speed_eval
      placeCameraAtPathT_def placeCameraReads_def tangentReads_def inBounds_def orElse_def
      d2i_eval jtrunc_def defaults_def bend_def riding_def
      drainAccumulator.simps [of "1 / 10"] drainAccumulator.simps [of 0])

section \<open>Turn angles of the reference zig-zag\<close>

lemma flat_turn_cosine:
  assumes "vlength (ax, 0, az) \<noteq> 0" "vlength (bx, 0, bz) \<noteq> 0"
  shows "dot (normalize (ax, 0, az)) (normalize (bx, 0, bz))
         = (ax * bx + az * bz) / (vlength (ax, 0, az) * vlength (bx, 0, bz))"
  using assms by (simp add: dot_def normalize_def Let_def field_simps)

lemma sqrt_288: "sqrt 288 = 12 * sqrt 2"
proof -
  have "sqrt 288 = sqrt (12 * 12 * 2)" by simp
  also have "\<dots> = 12 * sqrt 2" by (simp only: real_sqrt_mult real_sqrt_abs2) simp
  finally show ?thesis .
qed

lemma sqrt_720: "sqrt 720 = 12 * sqrt 5"
proof -
  have "sqrt 720 = sqrt (12 * 12 * 5)" by simp
  also have "\<dots> = 12 * sqrt 5" by (simp only: real_sqrt_mult real_sqrt_abs2) simp
  finally show ?thesis .
qed

lemma sqrt_2_5: "sqrt 2 * sqrt 5 = sqrt 10"
  by (simp add: real_sqrt_mult [symmetric])

lemma vlength_short: "vlength (12, 0, 12) = 12 * sqrt 2"
  using sqrt_288 by (simp add: vlength_def)

lemma vlength_long: "vlength (- 24, 0, 12) = 12 * sqrt 5" "vlength (24, 0, 12) = 12 * sqrt 5"
  using sqrt_720 by (simp_all add: vlength_def)

lemma cos_sharp: "dot (normalize (- 24, 0, 12)) (normalize (24, 0, 12)) = - (3 / 5)"
  by (subst flat_turn_cosine) (simp_all add: vlength_long)

lemma cos_sharp': "dot (normalize (24, 0, 12)) (normalize (- 24, 0, 12)) = - (3 / 5)"
  by (subst flat_turn_cosine) (simp_all add: vlength_long)

lemma cos_wide: "dot (normalize (12, 0, 12)) (normalize (- 24, 0, 12)) = - (1 / sqrt 10)"
proof -
  have "dot (normalize (12, 0, 12)) (normalize (- 24, 0, 12))
        = - 144 / (12 * sqrt 2 * (12 * sqrt 5))"
    by (subst flat_turn_cosine) (simp_all add: vlength_long vlength_short)
  also have "12 * sqrt 2 * (12 * sqrt 5) = 144 * sqrt 10"
    using sqrt_2_5 by simp
  finally show ?thesis by simp
qed

lemma cos_wide': "dot (normalize (- 24, 0, 12)) (normalize (12, 0, 12)) = - (1 / sqrt 10)"
proof -
  have "dot (normalize (- 24, 0, 12)) (normalize (12, 0, 12))
        = - 144 / (12 * sqrt 5 * (12 * sqrt 2))"
    by (subst flat_turn_cosine) (simp_all add: vlength_long vlength_short)
  also have "12 * sqrt 5 * (12 * sqrt 2) = 144 * sqrt 10"
    using sqrt_2_5 by (simp add: mult.commute)
  finally show ?thesis by simp
qed

lemma inv_sqrt_10: "0 < 1 / sqrt 10" "1 / sqrt 10 < 1 / 2"
proof -
  show "0 < 1 / sqrt 10" by simp
  have "sqrt 4 < sqrt 10" by (simp only: real_sqrt_less_iff)
  then have "2 < sqrt 10" by simp
  then show "1 / sqrt 10 < 1 / 2" by (simp add: field_simps)
qed

lemma clamp_small: "0 < x \<Longrightarrow> x < 1 / 2 \<Longrightarrow> max (- 1) (min 1 (- x)) = - (x :: real)"
  by simp

lemma clamp_wide: "max (- 1) (min 1 (- (1 / sqrt 10))) = - (1 / sqrt 10)"
  by (rule clamp_small [OF inv_sqrt_10])

lemma arccos_between:
  assumes "0 < x" "x < 1 / 2"
  shows "pi / 2 < arccos (- x)" "arccos (- x) < 2 * pi / 3"
proof -
  have "arccos 0 < arccos (- x)"
    by (rule arccos_less_arccos) (use assms in simp_all)
  then show "pi / 2 < arccos (- x)" by simp
  have "arccos (- x) < arccos (- (1 / 2))"
    by (rule arccos_less_arccos) (use assms in simp_all)
  then show "arccos (- x) < 2 * pi / 3" by simp
qed

lemma zigzag_angles:
  "turnAngle (computeTurnAngles zigzag) = [0, wideTurn, sharpTurn, sharpTurn, wideTurn, 0]"
  by (simp add: computeTurnAngles_def zigzag_def Let_def upt_rec turnAngleAt_def subVectors_def
      setY_def cos_sharp cos_sharp' cos_wide cos_wide' clamp_wide wideTurn_def sharpTurn_def
      del: max_less_iff_conj min_less_iff_conj)

lemma radToDeg_less: "a < b \<Longrightarrow> radToDeg a < radToDeg b"
  by (simp add: radToDeg_def divide_strict_right_mono)

lemma radToDeg_pi: "radToDeg (pi / 2) = 90" "radToDeg (2 * pi / 3) = 120" "radToDeg pi = 180"
  by (simp_all add: radToDeg_def)

lemma wideTurn_bounds: "90 < wideTurn" "wideTurn < 120"
  using radToDeg_less [OF arccos_between(1) [OF inv_sqrt_10]]
    radToDeg_less [OF arccos_between(2) [OF inv_sqrt_10]]
  by (simp_all add: wideTurn_def radToDeg_pi)

lemma sharpTurn_bounds: "120 < sharpTurn" "sharpTurn < 180"
proof -
  have "arccos (- (1 / 2)) < arccos (- (3 / 5))"
    by (rule arccos_less_arccos) simp_all
  then have "2 * pi / 3 < arccos (- (3 / 5))" by simp
  then show "120 < sharpTurn"
    using radToDeg_less [of "2 * pi / 3" "arccos (- (3 / 5))"]
    by (simp add: sharpTurn_def radToDeg_pi)
  have "arccos (- (3 / 5)) < pi"
    using arccos_lt_bounded [of "- (3 / 5)"] by simp
  then show "sharpTurn < 180"
    using radToDeg_less [of "arccos (- (3 / 5))" pi]
    by (simp add: sharpTurn_def radToDeg_pi)
qed

text \<open>
  Claim C7, as stated, fails: the second interior control point of the zig-zag turns by
  more than 120 degrees, which is not approximately 90.
\<close>

theorem computeTurnAngles_zigzag_counterexample:
  "120 < turnAngle (computeTurnAngles zigzag) ! 2"
  using sharpTurn_bounds(1) by (simp add: zigzag_angles)

text \<open>
  Claim C7, amended. For the six control points of the zig-zag \<open>computeTurnAngles\<close>
  yields 0 at the two end points, \<open>degrees(acos(-1 / sqrt 10))\<close> at the first and the last
  interior point and \<open>degrees(acos(-3 / 5))\<close> at the two middle interior points. The first
  angle lies strictly between 90 and 120 degrees and the second strictly between 120 and
  180 degrees.
\<close>

theorem computeTurnAngles_zigzag:
  "turnAngle (computeTurnAngles zigzag) = [0, wideTurn, sharpTurn, sharpTurn, wideTurn, 0] \<and>
   90 < wideTurn \<and> wideTurn < 120 \<and> 120 < sharpTurn \<and> sharpTurn < 180"
  using zigzag_angles wideTurn_bounds sharpTurn_bounds by simp

section \<open>Loading a path\<close>









text \<open>The loader never stores \<open>NaN\<close> or a negative speed.\<close>

lemma cleanSpeed_at_least_0: "jge (cleanSpeed readText v) (Fin 0)"
  by (cases "parseFloat readText v")
     (auto simp: cleanSpeed_def orElse_def defaultSpeed_def jge_def)








text \<open>
  Claim C9. When the file cannot be fetched or parsed, or its \<open>points\<close> is not an array
  of at least two entries, \<open>loadPathFromJSON\<close> reports a failure and the whole state,
  every field of the path and of the ride, is as it was before the call.
\<close>

theorem loadPathFromJSON_rejects:
  assumes "input = Unreadable \<or>
           (\<exists>d. input = Parsed d \<and> (points d = None \<or> (\<exists>ps. points d = Some ps \<and> length ps < 2)))"
  shows "\<exists>f. loadPathFromJSON getPoints readText heightScale ui input st r = (Some f, st, r)"
  using assms by (auto simp: loadPathFromJSON_def)

theorem loadPathFromJSON_rejects_witness:
  "(\<exists>f. loadPathFromJSON tinyCurve readFront 0 defaults Unreadable bend riding
         = (Some f, bend, riding)) \<and>
   (\<exists>f. loadPathFromJSON tinyCurve readFront 0 defaults
           (Parsed \<lparr>points = Some [Pt 0 0], segmentSpeeds = None\<rparr>) bend riding
         = (Some f, bend, riding))"
  using loadPathFromJSON_rejects [of Unreadable tinyCurve readFront 0 defaults bend riding]
    loadPathFromJSON_rejects [of "Parsed \<lparr>points = Some [Pt 0 0], segmentSpeeds = None\<rparr>"
      tinyCurve readFront 0 defaults bend riding]
  by simp

text \<open>
  The failures of the claim are raised before the first assignment. A failure raised
  later is not atomic: a point that cannot be read leaves the control points empty, and
  the next \<open>resetCameraToPathStart\<close> throws on them.
\<close>

lemma loadPathFromJSON_unreadable_point:
  assumes "points d = Some ps" "2 \<le> length ps" "NotAnObject \<in> set ps"
  shows "loadPathFromJSON getPoints readText heightScale ui (Parsed d) st r
         = (Some (Thrown TypeError), st\<lparr>sCurveControlPoints := []\<rparr>, r)"
  using assms by (simp add: loadPathFromJSON_def)

lemma resetCameraToPathStart_emptied:
  "fst (resetCameraToPathStart ui (st\<lparr>sCurveControlPoints := []\<rparr>) r) = Some TypeError"
  by (cases "placeCameraAtPathT ui (st\<lparr>sCurveControlPoints := []\<rparr>) (Fin 0)")
     (auto simp: resetCameraToPathStart_def Let_def placeCameraAtPathT_def split: if_splits)

end
